theory Spec2Isabelle
  imports Complex_Main
begin

section \<open>Data model of \<open>specklepy/objects/builtElements/rebar.py\<close>\<close>

text \<open>
  Scalars (Python floats) are idealised as real numbers. The statements below are about
  list lengths, face indices and the kind of error raised; none of them depends on the
  numeric value of a coordinate other than through the test \<open>length = 0\<close> that decides
  whether the division in \<open>_line_to_cylinder_mesh\<close> raises.

  The exceptions the code can raise are \<open>SpeckleException\<close> (the constructor of \<open>Line\<close>
  given a value that is not a point) and \<open>ZeroDivisionError\<close>. \<open>InvalidArgument\<close> and
  \<open>DegenerateGeometry\<close> are the error names of the specification; no path of the code
  produces them, they are here so that statements about them can be written.
\<close>

datatype error = SpeckleException | ZeroDivisionError | InvalidArgument | DegenerateGeometry

text \<open>
  Modelled from the spec: the classes \<open>Point\<close>, \<open>Line\<close>, \<open>Polyline\<close> and \<open>Mesh\<close> of
  \<open>specklepy.objects.geometry\<close> are not in the source file. A \<open>Line\<close> is an ordered
  pair of 3D points, a \<open>Polyline\<close> a flat list of scalars, a \<open>Mesh\<close> a flat list of
  vertex scalars and a face buffer.
\<close>

datatype pnt = Point (px: real) (py: real) (pz: real)

datatype line = Line (line_start: pnt) (line_end: pnt)

datatype polyline = Polyline (pvalue: "real list")

datatype mesh = Mesh (vertices: "real list") (faces: "int list")

datatype base = LineObj line | MeshObj mesh

text \<open>
  Modelled from the spec: the constructor \<open>Line(start=..., end=...)\<close>. The attributes
  \<open>start\<close> and \<open>end\<close> of a \<open>Line\<close> are points; the base class of the geometry objects
  checks the type of every attribute it is given and raises \<open>SpeckleException\<close> for a
  value of another type. The source file calls the constructor with two list slices of
  a polyline; \<open>arg\<close> is what a caller may pass for an end, a point object or a list of
  scalars. \<open>start\<close> is set before \<open>end\<close>.
\<close>

datatype arg = PointArg pnt | ListArg "real list"

definition check_point :: "arg \<Rightarrow> error + pnt" where
  "check_point v = (case v of PointArg p \<Rightarrow> Inr p | ListArg xs \<Rightarrow> Inl SpeckleException)"

definition Line_init :: "arg \<Rightarrow> arg \<Rightarrow> error + line" where
  "Line_init start_arg end_arg =
     (case check_point start_arg of
        Inl e \<Rightarrow> Inl e
      | Inr p \<Rightarrow> (case check_point end_arg of Inl e \<Rightarrow> Inl e | Inr q \<Rightarrow> Inr (Line p q)))"

record rebar_hook =
  hook_angle :: real
  hook_length :: real
  hook_radius :: real
  hook_units :: string

record rebar_shape =
  shape_name :: string
  rebar_type :: string
  lines :: "line list"
  polylines :: "polyline list"
  bar_diameter :: real
  shape_units :: string

record rebar_group =
  shape :: rebar_shape
  number :: int
  has_first_bar :: bool
  has_last_bar :: bool
  start_hook :: "rebar_hook option"
  end_hook :: "rebar_hook option"
  volume :: real
  units :: string
  representation_mode :: string

record rebar_group_built = rebar_group +
  representation :: "base list"

text \<open>\<open>RebarShape.__init__\<close>: \<open>lines or []\<close> and \<open>polylines or []\<close>.\<close>

definition RebarShape_init ::
    "string \<Rightarrow> string \<Rightarrow> line list option \<Rightarrow> polyline list option \<Rightarrow> real \<Rightarrow> string \<Rightarrow>
     rebar_shape" where
  "RebarShape_init nm ty ls ps diameter un =
     \<lparr>shape_name = nm, rebar_type = ty,
      lines = (case ls of None \<Rightarrow> [] | Some l \<Rightarrow> l),
      polylines = (case ps of None \<Rightarrow> [] | Some p \<Rightarrow> p),
      bar_diameter = diameter, shape_units = un\<rparr>"

definition AS_LINE :: string where
  "AS_LINE = ''AsLine''"

definition AS_VOLUME :: string where
  "AS_VOLUME = ''AsVolume''"

section \<open>Python primitives used by the generator\<close>

text \<open>\<open>range(a, b, s)\<close> for a positive step; \<open>range(n)\<close> is \<open>py_range 0 n 1\<close>.\<close>

function py_range :: "int \<Rightarrow> int \<Rightarrow> int \<Rightarrow> int list" where
  "py_range a b s = (if 0 < s \<and> a < b then a # py_range (a + s) b s else [])"
  by pat_completeness auto
termination
  by (relation "measure (\<lambda>(a, b, s). nat (b - a))") auto

declare py_range.simps [simp del]

text \<open>A slice \<open>xs[a:b]\<close>: a negative index counts from the end, and both are clamped.\<close>

definition norm_index :: "int \<Rightarrow> nat \<Rightarrow> nat" where
  "norm_index i n = (if i < 0 then nat (max 0 (int n + i)) else min (nat i) n)"

definition slice :: "'a list \<Rightarrow> int \<Rightarrow> int \<Rightarrow> 'a list" where
  "slice xs a b =
     (let lo = norm_index a (length xs); hi = norm_index b (length xs)
      in take (hi - lo) (drop lo xs))"

text \<open>
  A \<open>for\<close> loop whose body may raise: the state is threaded through the elements in
  order and the first exception ends the loop.
\<close>

fun for_each :: "('a \<Rightarrow> 's \<Rightarrow> error + 's) \<Rightarrow> 'a list \<Rightarrow> 's \<Rightarrow> error + 's" where
  "for_each body [] s = Inr s"
| "for_each body (x # xs) s =
     (case body x s of Inl e \<Rightarrow> Inl e | Inr s' \<Rightarrow> for_each body xs s')"

text \<open>\<open>[p.x, p.y, p.z]\<close> for a point object \<open>p\<close>.\<close>

definition xyz :: "pnt \<Rightarrow> real list" where
  "xyz p = [px p, py p, pz p]"

section \<open>\<open>RebarGroup._generate_line_representation\<close>\<close>

text \<open>
  The body of the innermost loop builds a \<open>Line\<close> from two slices, which the constructor
  may refuse, so every loop of the generator threads an error.
\<close>

definition line_polyline_step :: "polyline \<Rightarrow> int \<Rightarrow> line list \<Rightarrow> error + line list" where
  "line_polyline_step polyline j acc =
     (let start_point = slice (pvalue polyline) j (j + 3);
          end_point = slice (pvalue polyline) (j + 3) (j + 6)
      in case Line_init (ListArg start_point) (ListArg end_point) of
           Inl e \<Rightarrow> Inl e
         | Inr l \<Rightarrow> Inr (acc @ [l]))"

definition line_polyline_loop :: "polyline \<Rightarrow> line list \<Rightarrow> error + line list" where
  "line_polyline_loop polyline acc =
     for_each (line_polyline_step polyline)
              (py_range 0 (int (length (pvalue polyline)) - 3) 3) acc"

definition line_instance :: "'a rebar_group_scheme \<Rightarrow> int \<Rightarrow> line list \<Rightarrow> error + line list" where
  "line_instance self i acc =
     (let acc1 = fold (\<lambda>seg a. a @ [seg]) (lines (shape self)) acc
      in for_each line_polyline_loop (polylines (shape self)) acc1)"

definition generate_line_representation :: "'a rebar_group_scheme \<Rightarrow> error + line list" where
  "generate_line_representation self =
     for_each (line_instance self) (py_range 0 (number self) 1) []"

section \<open>\<open>RebarGroup._line_to_cylinder_mesh\<close>\<close>

definition circle_step :: "real \<Rightarrow> int \<Rightarrow> int \<Rightarrow> real list list \<Rightarrow> real list list" where
  "circle_step radius num_segments i circle_vertices =
     (let angle = 2 * pi * real_of_int i / real_of_int num_segments;
          x = radius * cos angle;
          y = radius * sin angle
      in circle_vertices @ [[x, y, 0]])"

definition vertex_step :: "real list \<Rightarrow> real \<Rightarrow> real list \<Rightarrow> real list \<Rightarrow> real list \<Rightarrow> real list" where
  "vertex_step start_point len unit_direction vertex vs =
     (vs @ [start_point ! 0 + vertex ! 0,
            start_point ! 1 + vertex ! 1,
            start_point ! 2])
        @ [start_point ! 0 + vertex ! 0 + len * unit_direction ! 0,
           start_point ! 1 + vertex ! 1 + len * unit_direction ! 1,
           start_point ! 2 + len * unit_direction ! 2]"

definition side_step :: "int \<Rightarrow> int \<Rightarrow> int list \<Rightarrow> int list" where
  "side_step num_segments i fs =
     (let bottom1 = i * 2;
          top1 = bottom1 + 1;
          bottom2 = (i * 2 + 2) mod (num_segments * 2);
          top2 = (i * 2 + 3) mod (num_segments * 2)
      in (fs @ [3, bottom1, top1, bottom2]) @ [3, top1, top2, bottom2])"

definition cap_step :: "int \<Rightarrow> int \<Rightarrow> int \<Rightarrow> int \<Rightarrow> int list \<Rightarrow> int list" where
  "cap_step num_segments top_center bottom_center i fs =
     (fs @ [3, bottom_center, i * 2, (i * 2 + 2) mod (num_segments * 2)])
        @ [3, top_center, (i * 2 + 1) mod (num_segments * 2), i * 2 + 1]"

definition side_faces :: "int \<Rightarrow> int list \<Rightarrow> int list" where
  "side_faces num_segments fs = fold (side_step num_segments) (py_range 0 num_segments 1) fs"

definition cap_faces :: "int \<Rightarrow> int \<Rightarrow> int \<Rightarrow> int list \<Rightarrow> int list" where
  "cap_faces num_segments top_center bottom_center fs =
     fold (cap_step num_segments top_center bottom_center) (py_range 0 num_segments 1) fs"

text \<open>
  The only operation of the body that can raise on a line between two points is
  \<open>d / length\<close> in the comprehension for \<open>unit_direction\<close>, which raises
  \<open>ZeroDivisionError\<close> at its first element when \<open>length\<close> is zero. The division by
  \<open>num_segments\<close> is inside a loop that runs only when \<open>num_segments\<close> is positive.
\<close>

definition line_to_cylinder_mesh :: "'a rebar_group_scheme \<Rightarrow> line \<Rightarrow> int \<Rightarrow> error + mesh" where
  "line_to_cylinder_mesh self seg num_segments =
     (let start_point = xyz (line_start seg);
          end_point = xyz (line_end seg);
          radius = bar_diameter (shape self) / 2000;
          direction = map (\<lambda>i. end_point ! i - start_point ! i) [0, 1, 2];
          len = sqrt (sum_list (map (\<lambda>d. d ^ 2) direction))
      in if len = 0 then Inl ZeroDivisionError
         else
           (let unit_direction = map (\<lambda>d. d / len) direction;
                circle_vertices =
                  fold (circle_step radius num_segments) (py_range 0 num_segments 1) [];
                vs = fold (vertex_step start_point len unit_direction) circle_vertices [];
                fs = side_faces num_segments [];
                top_center = int (length vs) div 2 - 1;
                bottom_center = int (length vs) - 1;
                fs' = cap_faces num_segments top_center bottom_center fs
            in Inr (Mesh vs fs')))"

section \<open>\<open>RebarGroup._generate_volumetric_representation\<close>\<close>

definition default_num_segments :: int where
  "default_num_segments = 36"

definition mesh_line_step :: "'a rebar_group_scheme \<Rightarrow> line \<Rightarrow> mesh list \<Rightarrow> error + mesh list" where
  "mesh_line_step self seg meshes =
     (case line_to_cylinder_mesh self seg default_num_segments of
        Inl e \<Rightarrow> Inl e
      | Inr m \<Rightarrow> Inr (meshes @ [m]))"

definition mesh_polyline_step ::
    "'a rebar_group_scheme \<Rightarrow> polyline \<Rightarrow> int \<Rightarrow> mesh list \<Rightarrow> error + mesh list" where
  "mesh_polyline_step self polyline j meshes =
     (let start_point = slice (pvalue polyline) j (j + 3);
          end_point = slice (pvalue polyline) (j + 3) (j + 6)
      in case Line_init (ListArg start_point) (ListArg end_point) of
           Inl e \<Rightarrow> Inl e
         | Inr l \<Rightarrow>
             (case line_to_cylinder_mesh self l default_num_segments of
                Inl e \<Rightarrow> Inl e
              | Inr m \<Rightarrow> Inr (meshes @ [m])))"

definition mesh_polyline_loop ::
    "'a rebar_group_scheme \<Rightarrow> polyline \<Rightarrow> mesh list \<Rightarrow> error + mesh list" where
  "mesh_polyline_loop self polyline meshes =
     for_each (mesh_polyline_step self polyline)
              (py_range 0 (int (length (pvalue polyline)) - 3) 3) meshes"

definition mesh_instance :: "'a rebar_group_scheme \<Rightarrow> int \<Rightarrow> mesh list \<Rightarrow> error + mesh list" where
  "mesh_instance self i meshes =
     (case for_each (mesh_line_step self) (lines (shape self)) meshes of
        Inl e \<Rightarrow> Inl e
      | Inr meshes1 \<Rightarrow> for_each (mesh_polyline_loop self) (polylines (shape self)) meshes1)"

definition generate_volumetric_representation :: "'a rebar_group_scheme \<Rightarrow> error + mesh list" where
  "generate_volumetric_representation self =
     for_each (mesh_instance self) (py_range 0 (number self) 1) []"

section \<open>\<open>RebarGroup.generate_representation\<close> and the constructor\<close>

definition generate_representation :: "'a rebar_group_scheme \<Rightarrow> error + base list" where
  "generate_representation self =
     (if representation_mode self = AS_VOLUME
      then (case generate_volumetric_representation self of
              Inl e \<Rightarrow> Inl e
            | Inr meshes \<Rightarrow> Inr (map MeshObj meshes))
      else (case generate_line_representation self of
              Inl e \<Rightarrow> Inl e
            | Inr ls \<Rightarrow> Inr (map LineObj ls)))"

definition RebarGroup_init ::
    "rebar_shape \<Rightarrow> int \<Rightarrow> bool \<Rightarrow> bool \<Rightarrow> rebar_hook option \<Rightarrow> rebar_hook option \<Rightarrow>
     real \<Rightarrow> string \<Rightarrow> string \<Rightarrow> error + rebar_group_built" where
  "RebarGroup_init sh n first_bar last_bar hook1 hook2 vol un mode =
     (let self = \<lparr>shape = sh, number = n, has_first_bar = first_bar, has_last_bar = last_bar,
                  start_hook = hook1, end_hook = hook2, volume = vol, units = un,
                  representation_mode = mode\<rparr>
      in case generate_representation self of
           Inl e \<Rightarrow> Inl e
         | Inr r \<Rightarrow> Inr (rebar_group.extend self \<lparr>representation = r\<rparr>))"

section \<open>Reading a mesh\<close>

text \<open>
  Modelled from the spec: a \<open>Mesh\<close> holds a flat list of vertex scalars, three per 3D
  point, and a face buffer made of runs \<open>[vertex_count, i1, ..., iN]\<close>. The functions
  below read the two buffers that way; \<open>decode_faces\<close> is \<open>None\<close> on a buffer that is
  not a sequence of complete runs.
\<close>

definition vertex_count :: "mesh \<Rightarrow> nat" where
  "vertex_count m = length (vertices m) div 3"

function decode_faces :: "int list \<Rightarrow> int list list option" where
  "decode_faces [] = Some []"
| "decode_faces (n # rest) =
     (if n < 0 \<or> length rest < nat n then None
      else (case decode_faces (drop (nat n) rest) of
              None \<Rightarrow> None
            | Some fs \<Rightarrow> Some (take (nat n) rest # fs)))"
  by pat_completeness auto
termination
  by (relation "measure length") auto

definition face_count :: "int list \<Rightarrow> nat option" where
  "face_count buf = map_option length (decode_faces buf)"

definition all_triangles :: "int list \<Rightarrow> bool" where
  "all_triangles buf =
     (case decode_faces buf of None \<Rightarrow> False | Some fs \<Rightarrow> list_all (\<lambda>f. length f = 3) fs)"

definition mesh_face_count :: "mesh \<Rightarrow> nat option" where
  "mesh_face_count m = face_count (faces m)"

definition face_indices :: "mesh \<Rightarrow> int list" where
  "face_indices m = (case decode_faces (faces m) of None \<Rightarrow> [] | Some fs \<Rightarrow> concat fs)"

definition index_valid :: "mesh \<Rightarrow> int \<Rightarrow> bool" where
  "index_valid m i = (0 \<le> i \<and> i < int (vertex_count m))"

definition faces_in_range :: "mesh \<Rightarrow> bool" where
  "faces_in_range m = list_all (index_valid m) (face_indices m)"

definition references :: "int \<Rightarrow> mesh \<Rightarrow> bool" where
  "references i m = (i \<in> set (face_indices m))"

text \<open>
  In a tube mesh of resolution \<open>num_segments\<close> the side loop writes two runs of four
  integers per circle point, so the cap section starts at offset \<open>8 * num_segments\<close>
  of the face buffer; the integer after its first run header is the center index of the
  first bottom-cap triangle, the one after its second run header the center index of
  the first top-cap triangle.
\<close>

definition cap_section :: "int \<Rightarrow> mesh \<Rightarrow> int list" where
  "cap_section num_segments m = drop (8 * nat num_segments) (faces m)"

definition tube_bottom_center :: "int \<Rightarrow> mesh \<Rightarrow> int" where
  "tube_bottom_center num_segments m = cap_section num_segments m ! 1"

definition tube_top_center :: "int \<Rightarrow> mesh \<Rightarrow> int" where
  "tube_top_center num_segments m = cap_section num_segments m ! 5"

text \<open>
  The bottom-center index as the specification words it:
  \<open>len(vertices)/3 - 1\<close> in point-count terms.
\<close>

definition spec_bottom_center :: "mesh \<Rightarrow> int" where
  "spec_bottom_center m = int (length (vertices m)) div 3 - 1"

section \<open>Segments the mesher accepts\<close>

text \<open>
  A segment is straight when its two ends differ and zero-length when they are the same
  point. A polyline has a segment when it holds more than three scalars, that is when
  \<open>range(0, len(value) - 3, 3)\<close> is not empty.
\<close>

definition straight_segment :: "line \<Rightarrow> bool" where
  "straight_segment seg = (line_start seg \<noteq> line_end seg)"

definition zero_length_segment :: "line \<Rightarrow> bool" where
  "zero_length_segment seg = (line_start seg = line_end seg)"

definition no_segment :: "polyline \<Rightarrow> bool" where
  "no_segment p = (length (pvalue p) \<le> 3)"

text \<open>The \<open>k\<close>-th triangle of the cap section of a tube mesh.\<close>

definition cap_triangle :: "int \<Rightarrow> nat \<Rightarrow> mesh \<Rightarrow> int list" where
  "cap_triangle num_segments k m =
     (case decode_faces (cap_section num_segments m) of None \<Rightarrow> [] | Some cs \<Rightarrow> cs ! k)"

section \<open>Example inputs\<close>

text \<open>
  A shape and a group built with the default arguments of the constructors, and the
  segment from \<open>(0,0,0)\<close> to \<open>(0,0,1)\<close> of the specification's scenario.
\<close>

abbreviation shape_of :: "line list \<Rightarrow> polyline list \<Rightarrow> real \<Rightarrow> rebar_shape" where
  "shape_of ls ps diameter \<equiv>
     RebarShape_init ''bar'' ''Standard'' (Some ls) (Some ps) diameter ''meters''"

abbreviation group_of :: "rebar_shape \<Rightarrow> int \<Rightarrow> string \<Rightarrow> rebar_group" where
  "group_of sh n mode \<equiv>
     \<lparr>shape = sh, number = n, has_first_bar = True, has_last_bar = True,
      start_hook = None, end_hook = None, volume = 0, units = ''meters'',
      representation_mode = mode\<rparr>"

abbreviation unit_z_line :: line where
  "unit_z_line \<equiv> Line (Point 0 0 0) (Point 0 0 1)"

section \<open>Auxiliary facts\<close>

subsection \<open>Ranges and loops that append\<close>

lemma py_range_unfold:
  "0 < s \<Longrightarrow> py_range a b s = map (\<lambda>k. a + s * int k) [0..<nat ((b - a + s - 1) div s)]"
proof (induction a b s rule: py_range.induct)
  case (1 a b s)
  show ?case
  proof (cases "a < b")
    case False
    with 1(2) have "(b - a + s - 1) div s \<le> 0"
      by (smt (verit) div_neg_pos_less0 div_by_0 zdiv_eq_0_iff)
    with False show ?thesis by (simp add: py_range.simps)
  next
    case True
    with 1(2) have e: "(b - a + s - 1) div s = (b - (a + s) + s - 1) div s + 1"
      by (smt (verit) div_add_self2)
    from True 1(2) have nn: "0 \<le> (b - (a + s) + s - 1) div s"
      by (simp add: pos_imp_zdiv_nonneg_iff)
    have "py_range a b s = a # py_range (a + s) b s"
      using True 1(2) by (simp add: py_range.simps)
    also have "\<dots> = a # map (\<lambda>k. (a + s) + s * int k) [0..<nat ((b - (a + s) + s - 1) div s)]"
      using 1(1) True 1(2) by simp
    also have "\<dots> = map (\<lambda>k. a + s * int k) [0..<Suc (nat ((b - (a + s) + s - 1) div s))]"
      by (simp add: upt_conv_Cons map_Suc_upt[symmetric] algebra_simps del: upt_Suc)
    also have "Suc (nat ((b - (a + s) + s - 1) div s)) = nat ((b - a + s - 1) div s)"
      using e nn by simp
    finally show ?thesis .
  qed
qed

lemma py_range_unit: "py_range 0 n 1 = map int [0..<nat n]"
  by (simp add: py_range_unfold)

lemma fold_snoc: "fold (\<lambda>x acc. acc @ f x) xs acc = acc @ concat (map f xs)"
  by (induction xs arbitrary: acc) simp_all

subsection \<open>The mesher\<close>

lemma fold_circle_step:
  "fold (circle_step r n) xs acc =
     acc @ map (\<lambda>i. [r * cos (2 * pi * real_of_int i / real_of_int n),
                     r * sin (2 * pi * real_of_int i / real_of_int n), 0]) xs"
  by (induction xs arbitrary: acc) (simp_all add: circle_step_def Let_def)

lemma length_fold_circle_step:
  "length (fold (circle_step r n) xs acc) = length acc + length xs"
  by (simp add: fold_circle_step)

lemma length_fold_vertex_step:
  "length (fold (vertex_step sp len ud) cs acc) = length acc + 6 * length cs"
  by (induction cs arbitrary: acc) (simp_all add: vertex_step_def)

lemma length_py_range_unit: "length (py_range 0 n 1) = nat n"
  by (simp add: py_range_unit)

lemma sum3_squares_zero:
  "u\<^sup>2 + (v\<^sup>2 + w\<^sup>2) = 0 \<longleftrightarrow> u = 0 \<and> v = 0 \<and> (w::real) = 0"
proof
  assume h: "u\<^sup>2 + (v\<^sup>2 + w\<^sup>2) = 0"
  have "0 \<le> u\<^sup>2" "0 \<le> v\<^sup>2" "0 \<le> w\<^sup>2" by simp_all
  with h have "u\<^sup>2 = 0 \<and> v\<^sup>2 = 0 \<and> w\<^sup>2 = 0" by linarith
  then show "u = 0 \<and> v = 0 \<and> w = 0" by simp
qed simp

lemma mesher_Inr:
  assumes "line_to_cylinder_mesh self seg n = Inr m"
  shows "\<exists>sp len ud r.
           vertices m = fold (vertex_step sp len ud)
                             (fold (circle_step r n) (py_range 0 n 1) []) [] \<and>
           faces m = cap_faces n (int (length (vertices m)) div 2 - 1)
                       (int (length (vertices m)) - 1) (side_faces n [])"
  using assms
  by (auto simp: line_to_cylinder_mesh_def Let_def split: if_splits intro!: exI)

lemma mesher_length_vertices:
  assumes "line_to_cylinder_mesh self seg n = Inr m"
  shows "length (vertices m) = 6 * nat n"
proof -
  from mesher_Inr[OF assms] obtain sp len ud r where
    "vertices m = fold (vertex_step sp len ud) (fold (circle_step r n) (py_range 0 n 1) []) []"
    by blast
  then show ?thesis
    by (simp only: length_fold_vertex_step length_fold_circle_step length_py_range_unit) simp
qed

lemma mesher_faces:
  assumes "line_to_cylinder_mesh self seg n = Inr m"
  shows "faces m = cap_faces n (int (6 * nat n) div 2 - 1) (int (6 * nat n) - 1) (side_faces n [])"
  using mesher_Inr[OF assms] mesher_length_vertices[OF assms] by auto

lemma mesher_length_zero:
  "sqrt (sum_list (map (\<lambda>d. d ^ 2)
           (map (\<lambda>i. xyz q ! i - xyz p ! i) [0, 1, 2]))) = 0 \<longleftrightarrow> p = q"
  by (cases p; cases q) (auto simp: xyz_def sum3_squares_zero)

lemma straight_segment_returns:
  "straight_segment seg \<Longrightarrow> \<exists>m. line_to_cylinder_mesh self seg n = Inr m"
  using mesher_length_zero[of "line_end seg" "line_start seg"]
  by (simp add: line_to_cylinder_mesh_def straight_segment_def Let_def)

lemma zero_length_segment_raises:
  "zero_length_segment seg \<Longrightarrow> line_to_cylinder_mesh self seg n = Inl ZeroDivisionError"
  using mesher_length_zero[of "line_end seg" "line_start seg"]
  by (simp add: line_to_cylinder_mesh_def zero_length_segment_def Let_def)

lemma mesher_raises_iff:
  "line_to_cylinder_mesh self seg n = Inl e \<longleftrightarrow> zero_length_segment seg \<and> e = ZeroDivisionError"
  using mesher_length_zero[of "line_end seg" "line_start seg"]
  by (auto simp: line_to_cylinder_mesh_def zero_length_segment_def Let_def)

subsection \<open>Decoding the face buffer\<close>

lemma fold_side_step:
  "fold (side_step n) xs acc =
     acc @ concat (map (\<lambda>i. [3, i * 2, i * 2 + 1, (i * 2 + 2) mod (n * 2),
                               3, i * 2 + 1, (i * 2 + 3) mod (n * 2), (i * 2 + 2) mod (n * 2)]) xs)"
  by (induction xs arbitrary: acc) (simp_all add: side_step_def Let_def)

lemma fold_cap_step:
  "fold (cap_step n tc bc) xs acc =
     acc @ concat (map (\<lambda>i. [3, bc, i * 2, (i * 2 + 2) mod (n * 2),
                               3, tc, (i * 2 + 1) mod (n * 2), i * 2 + 1]) xs)"
  by (induction xs arbitrary: acc) (simp_all add: cap_step_def)

lemma cap_faces_append: "cap_faces n tc bc acc = acc @ cap_faces n tc bc []"
  by (simp add: cap_faces_def fold_cap_step)

lemma decode_triangle:
  "decode_faces (3 # a # b # c # rest) =
     (case decode_faces rest of None \<Rightarrow> None | Some fs \<Rightarrow> Some ([a, b, c] # fs))"
  by (simp add: numeral_3_eq_3 split: option.splits)

lemma decode_triangle_pairs:
  "decode_faces (concat (map (\<lambda>i. [3, a i, b i, c i, 3, d i, e i, f i]) xs) @ rest) =
     (case decode_faces rest of
        None \<Rightarrow> None
      | Some fs \<Rightarrow> Some (concat (map (\<lambda>i. [[a i, b i, c i], [d i, e i, f i]]) xs) @ fs))"
proof (induction xs)
  case Nil
  show ?case by (simp split: option.splits)
next
  case (Cons x xs)
  show ?case
    by (simp only: list.map concat.simps append.simps decode_triangle Cons.IH)
       (simp split: option.splits)
qed

lemma length_concat_pairs:
  "length (concat (map (\<lambda>i. [g i, h i]) xs)) = 2 * length xs"
  by (induction xs) simp_all

lemma decode_side_faces:
  "decode_faces (side_faces n []) =
     Some (concat (map (\<lambda>i. [[i * 2, i * 2 + 1, (i * 2 + 2) mod (n * 2)],
                              [i * 2 + 1, (i * 2 + 3) mod (n * 2), (i * 2 + 2) mod (n * 2)]])
                       (py_range 0 n 1)))"
  using decode_triangle_pairs[where rest = "[]" and xs = "py_range 0 n 1"
      and a = "\<lambda>i. i * 2" and b = "\<lambda>i. i * 2 + 1" and c = "\<lambda>i. (i * 2 + 2) mod (n * 2)"
      and d = "\<lambda>i. i * 2 + 1" and e = "\<lambda>i. (i * 2 + 3) mod (n * 2)"
      and f = "\<lambda>i. (i * 2 + 2) mod (n * 2)"]
  by (simp add: side_faces_def fold_side_step)

lemma decode_cap_faces:
  "decode_faces (cap_faces n tc bc []) =
     Some (concat (map (\<lambda>i. [[bc, i * 2, (i * 2 + 2) mod (n * 2)],
                              [tc, (i * 2 + 1) mod (n * 2), i * 2 + 1]])
                       (py_range 0 n 1)))"
  using decode_triangle_pairs[where rest = "[]" and xs = "py_range 0 n 1"
      and a = "\<lambda>i. bc" and b = "\<lambda>i. i * 2" and c = "\<lambda>i. (i * 2 + 2) mod (n * 2)"
      and d = "\<lambda>i. tc" and e = "\<lambda>i. (i * 2 + 1) mod (n * 2)"
      and f = "\<lambda>i. i * 2 + 1"]
  by (simp add: cap_faces_def fold_cap_step)

lemma decode_tube_faces:
  "decode_faces (cap_faces n tc bc (side_faces n [])) =
     Some (concat (map (\<lambda>i. [[i * 2, i * 2 + 1, (i * 2 + 2) mod (n * 2)],
                              [i * 2 + 1, (i * 2 + 3) mod (n * 2), (i * 2 + 2) mod (n * 2)]])
                       (py_range 0 n 1))
           @ concat (map (\<lambda>i. [[bc, i * 2, (i * 2 + 2) mod (n * 2)],
                                [tc, (i * 2 + 1) mod (n * 2), i * 2 + 1]])
                       (py_range 0 n 1)))"
proof -
  have "cap_faces n tc bc (side_faces n []) =
          concat (map (\<lambda>i. [3, i * 2, i * 2 + 1, (i * 2 + 2) mod (n * 2),
                             3, i * 2 + 1, (i * 2 + 3) mod (n * 2), (i * 2 + 2) mod (n * 2)])
                      (py_range 0 n 1)) @ cap_faces n tc bc []"
    by (subst cap_faces_append) (simp add: side_faces_def fold_side_step)
  then show ?thesis
    by (simp only: decode_triangle_pairs decode_cap_faces) simp
qed

lemma face_count_side: "face_count (side_faces n []) = Some (2 * nat n)"
  by (simp add: face_count_def decode_side_faces length_concat_pairs length_py_range_unit)

lemma face_count_cap: "face_count (cap_faces n tc bc []) = Some (2 * nat n)"
  by (simp add: face_count_def decode_cap_faces length_concat_pairs length_py_range_unit)

lemma face_count_tube: "face_count (cap_faces n tc bc (side_faces n [])) = Some (4 * nat n)"
  by (simp add: face_count_def decode_tube_faces length_concat_pairs length_py_range_unit)

lemma list_all_concat_pairs:
  "list_all P (concat (map (\<lambda>i. [g i, h i]) xs)) \<longleftrightarrow> list_all (\<lambda>i. P (g i) \<and> P (h i)) xs"
  by (induction xs) simp_all

lemma all_triangles_tube: "all_triangles (cap_faces n tc bc (side_faces n []))"
  by (simp add: all_triangles_def decode_tube_faces list_all_concat_pairs) (simp add: list_all_iff)

subsection \<open>Segments\<close>

lemma straight_segment_Line [simp]: "straight_segment (Line p q) \<longleftrightarrow> p \<noteq> q"
  by (simp add: straight_segment_def)

lemma zero_length_segment_Line [simp]: "zero_length_segment (Line p q) \<longleftrightarrow> p = q"
  by (simp add: zero_length_segment_def)

lemma no_segment_Polyline [simp]: "no_segment (Polyline v) \<longleftrightarrow> length v \<le> 3"
  by (simp add: no_segment_def)

subsection \<open>Line mode\<close>

lemma py_range_three_empty: "py_range 0 (int n - 3) 3 = [] \<longleftrightarrow> n \<le> 3"
  by (subst py_range.simps) auto

lemma py_range_nonpos: "n \<le> 0 \<Longrightarrow> py_range 0 n 1 = []"
  by (subst py_range.simps) simp

lemma py_range_pos: "0 < n \<Longrightarrow> py_range 0 n 1 = 0 # py_range 1 n 1"
  by (subst py_range.simps) simp

lemma length_concat_replicate: "length (concat (replicate n xs)) = n * length xs"
  by (induction n) simp_all

lemma Line_init_lists: "Line_init (ListArg u) (ListArg v) = Inl SpeckleException"
  by (simp add: Line_init_def check_point_def)

lemma line_polyline_step_raises: "line_polyline_step p j acc = Inl SpeckleException"
  by (simp add: line_polyline_step_def Let_def Line_init_lists)

lemma line_polyline_loop_eq:
  "line_polyline_loop p acc = (if no_segment p then Inr acc else Inl SpeckleException)"
proof (cases "py_range 0 (int (length (pvalue p)) - 3) 3")
  case Nil
  then show ?thesis
    using py_range_three_empty[of "length (pvalue p)"]
    by (simp add: line_polyline_loop_def no_segment_def)
next
  case (Cons j js)
  then show ?thesis
    using py_range_three_empty[of "length (pvalue p)"]
    by (simp add: line_polyline_loop_def no_segment_def line_polyline_step_raises)
qed

lemma for_each_line_polyline_loop:
  "for_each line_polyline_loop ps acc =
     (if list_all no_segment ps then Inr acc else Inl SpeckleException)"
  by (induction ps arbitrary: acc) (simp_all add: line_polyline_loop_eq)

lemma line_instance_eq:
  "line_instance self i acc =
     (if list_all no_segment (polylines (shape self)) then Inr (acc @ lines (shape self))
      else Inl SpeckleException)"
  using fold_snoc[where f = "\<lambda>x. [x]" and xs = "lines (shape self)" and acc = acc]
  by (simp add: line_instance_def Let_def for_each_line_polyline_loop)

lemma for_each_line_instance:
  "for_each (line_instance self) xs acc =
     (if xs = [] \<or> list_all no_segment (polylines (shape self))
      then Inr (acc @ concat (replicate (length xs) (lines (shape self))))
      else Inl SpeckleException)"
  by (induction xs arbitrary: acc) (simp_all add: line_instance_eq)

lemma py_range_unit_empty: "py_range 0 n 1 = [] \<longleftrightarrow> n \<le> 0"
  by (subst py_range.simps) auto

text \<open>
  What line mode does on every group: it returns the lines of the shape, once per
  instance, when no polyline has a segment or there is no instance, and raises at the
  first polyline segment otherwise.
\<close>

lemma line_mode_outcome:
  "generate_line_representation self =
     (if number self \<le> 0 \<or> list_all no_segment (polylines (shape self))
      then Inr (concat (replicate (nat (number self)) (lines (shape self))))
      else Inl SpeckleException)"
  by (simp add: generate_line_representation_def for_each_line_instance py_range_unit_empty
        length_py_range_unit)

lemma line_nonpos:
  "number self \<le> 0 \<Longrightarrow> generate_line_representation self = Inr []"
  by (simp add: line_mode_outcome)

subsection \<open>Volume mode\<close>

lemma mesh_polyline_step_raises: "mesh_polyline_step self p j ms = Inl SpeckleException"
  by (simp add: mesh_polyline_step_def Let_def Line_init_lists)

lemma mesh_polyline_loop_eq:
  "mesh_polyline_loop self p ms = (if no_segment p then Inr ms else Inl SpeckleException)"
proof (cases "py_range 0 (int (length (pvalue p)) - 3) 3")
  case Nil
  then show ?thesis
    using py_range_three_empty[of "length (pvalue p)"]
    by (simp add: mesh_polyline_loop_def no_segment_def)
next
  case (Cons j js)
  then show ?thesis
    using py_range_three_empty[of "length (pvalue p)"]
    by (simp add: mesh_polyline_loop_def no_segment_def mesh_polyline_step_raises)
qed

lemma for_each_mesh_polyline_loop:
  "for_each (mesh_polyline_loop self) ps ms =
     (if list_all no_segment ps then Inr ms else Inl SpeckleException)"
  by (induction ps arbitrary: ms) (simp_all add: mesh_polyline_loop_eq)

lemma for_each_mesh_line_step_length:
  "for_each (mesh_line_step self) ls ms = Inr r \<Longrightarrow> length r = length ms + length ls"
proof (induction ls arbitrary: ms)
  case Nil
  then show ?case by simp
next
  case (Cons l ls)
  then show ?case
    by (auto simp: mesh_line_step_def split: sum.splits)
qed

lemma for_each_mesh_line_step_returns:
  "list_all straight_segment ls \<Longrightarrow> \<exists>r. for_each (mesh_line_step self) ls ms = Inr r"
proof (induction ls arbitrary: ms)
  case Nil
  show ?case by simp
next
  case (Cons l ls)
  from Cons.prems obtain m where "line_to_cylinder_mesh self l default_num_segments = Inr m"
    using straight_segment_returns by fastforce
  with Cons show ?case by (simp add: mesh_line_step_def)
qed

lemma for_each_mesh_line_step_raises:
  assumes "list_all straight_segment pre" "zero_length_segment seg"
  shows "for_each (mesh_line_step self) (pre @ seg # post) ms = Inl ZeroDivisionError"
  using assms(1)
proof (induction pre arbitrary: ms)
  case Nil
  show ?case by (simp add: mesh_line_step_def zero_length_segment_raises[OF assms(2)])
next
  case (Cons l ls)
  from Cons.prems obtain m where "line_to_cylinder_mesh self l default_num_segments = Inr m"
    using straight_segment_returns by fastforce
  with Cons show ?case by (simp add: mesh_line_step_def)
qed

lemma mesh_instance_Inr:
  assumes "mesh_instance self i ms = Inr r"
  shows "length r = length ms + length (lines (shape self))"
    and "list_all no_segment (polylines (shape self))"
proof -
  from assms obtain r1 where
    r1: "for_each (mesh_line_step self) (lines (shape self)) ms = Inr r1" and
    r: "for_each (mesh_polyline_loop self) (polylines (shape self)) r1 = Inr r"
    by (auto simp: mesh_instance_def split: sum.splits)
  from r show short: "list_all no_segment (polylines (shape self))"
    by (auto simp: for_each_mesh_polyline_loop split: if_splits)
  from r have "r = r1"
    by (auto simp: for_each_mesh_polyline_loop split: if_splits)
  with for_each_mesh_line_step_length[OF r1]
  show "length r = length ms + length (lines (shape self))" by simp
qed

lemma mesh_instance_returns:
  assumes "list_all straight_segment (lines (shape self))"
    and "list_all no_segment (polylines (shape self))"
  shows "\<exists>r. mesh_instance self i ms = Inr r"
  using for_each_mesh_line_step_returns[OF assms(1), of self ms] assms(2)
  by (auto simp: mesh_instance_def for_each_mesh_polyline_loop)

lemma mesh_instance_polyline_raises:
  assumes "list_all straight_segment (lines (shape self))"
    and "\<not> list_all no_segment (polylines (shape self))"
  shows "mesh_instance self i ms = Inl SpeckleException"
  using for_each_mesh_line_step_returns[OF assms(1), of self ms] assms(2)
  by (auto simp: mesh_instance_def for_each_mesh_polyline_loop)

lemma for_each_mesh_instance_Inr:
  "for_each (mesh_instance self) xs ms = Inr r \<Longrightarrow>
     length r = length ms + length xs * length (lines (shape self)) \<and>
     (xs = [] \<or> list_all no_segment (polylines (shape self)))"
proof (induction xs arbitrary: ms)
  case Nil
  then show ?case by simp
next
  case (Cons x xs)
  then show ?case
    by (auto simp: mesh_instance_Inr split: sum.splits)
qed

lemma for_each_mesh_instance_returns:
  assumes "list_all straight_segment (lines (shape self))"
    and "list_all no_segment (polylines (shape self))"
  shows "\<exists>r. for_each (mesh_instance self) xs ms = Inr r"
proof (induction xs arbitrary: ms)
  case Nil
  show ?case by simp
next
  case (Cons x xs)
  from mesh_instance_returns[OF assms] obtain r1 where "mesh_instance self x ms = Inr r1"
    by blast
  with Cons show ?case by simp
qed

text \<open>
  Whenever volume mode returns, line mode returns too and the two results have the
  same length.
\<close>

lemma volumetric_length:
  assumes "generate_volumetric_representation self = Inr ms"
  shows "\<exists>ls. generate_line_representation self = Inr ls \<and> length ms = length ls"
proof -
  from assms have
    "length ms = nat (number self) * length (lines (shape self)) \<and>
     (number self \<le> 0 \<or> list_all no_segment (polylines (shape self)))"
    using for_each_mesh_instance_Inr[of self "py_range 0 (number self) 1" "[]" ms]
    by (simp add: generate_volumetric_representation_def length_py_range_unit
          py_range_unit_empty)
  then show ?thesis
    by (auto simp: line_mode_outcome length_concat_replicate)
qed

lemma volumetric_returns:
  assumes "list_all straight_segment (lines (shape self))"
    and "list_all no_segment (polylines (shape self))"
  shows "\<exists>ms. generate_volumetric_representation self = Inr ms"
  unfolding generate_volumetric_representation_def
  by (rule for_each_mesh_instance_returns[OF assms])

lemma volumetric_nonpos:
  "number self \<le> 0 \<Longrightarrow> generate_volumetric_representation self = Inr []"
  by (simp add: generate_volumetric_representation_def py_range_nonpos)

lemma volumetric_raises_zero_division:
  assumes "0 < number self" "lines (shape self) = pre @ seg # post"
    "list_all straight_segment pre" "zero_length_segment seg"
  shows "generate_volumetric_representation self = Inl ZeroDivisionError"
proof -
  have "mesh_instance self 0 [] = Inl ZeroDivisionError"
    by (simp add: mesh_instance_def assms(2) for_each_mesh_line_step_raises[OF assms(3,4)])
  then show ?thesis
    by (simp add: generate_volumetric_representation_def py_range_pos[OF assms(1)])
qed

lemma volumetric_polyline_raises:
  assumes "0 < number self" "list_all straight_segment (lines (shape self))"
    and "\<not> list_all no_segment (polylines (shape self))"
  shows "generate_volumetric_representation self = Inl SpeckleException"
  by (simp add: generate_volumetric_representation_def py_range_pos[OF assms(1)]
        mesh_instance_polyline_raises[OF assms(2,3)])

subsection \<open>Dispatch\<close>

lemma line_mode_independent:
  "generate_line_representation (self\<lparr>representation_mode := mode\<rparr>) =
     generate_line_representation self"
  by (simp add: line_mode_outcome)

text \<open>
  Every mode other than \<open>AsVolume\<close> has the outcome of \<open>AsLine\<close>, a result or an
  exception.
\<close>

lemma other_mode_is_line_mode:
  "representation_mode self \<noteq> AS_VOLUME \<Longrightarrow>
     generate_representation self =
       generate_representation (self\<lparr>representation_mode := AS_LINE\<rparr>)"
  by (simp add: generate_representation_def line_mode_independent AS_LINE_def AS_VOLUME_def)

text \<open>
  In every mode, a group with an instance and a polyline segment gets no
  representation.
\<close>

lemma polyline_segment_blocks_generation:
  assumes "0 < number self" "\<not> list_all no_segment (polylines (shape self))"
  shows "\<exists>e. generate_representation self = Inl e"
proof (cases "representation_mode self = AS_VOLUME")
  case False
  with assms show ?thesis
    by (simp add: generate_representation_def line_mode_outcome)
next
  case True
  have "\<exists>e. generate_volumetric_representation self = Inl e"
  proof (cases "generate_volumetric_representation self")
    case (Inl e)
    then show ?thesis by blast
  next
    case (Inr ms)
    from volumetric_length[OF Inr] assms show ?thesis
      by (auto simp: line_mode_outcome split: if_splits)
  qed
  with True show ?thesis
    by (auto simp: generate_representation_def)
qed

subsection \<open>Indices of a tube mesh\<close>

lemma mesher_faces_pos:
  assumes "0 \<le> n" "line_to_cylinder_mesh self seg n = Inr m"
  shows "faces m = cap_faces n (3 * n - 1) (6 * n - 1) (side_faces n [])"
proof -
  from assms(1) have "int (6 * nat n) = 6 * n" by simp
  moreover have "(6 * n) div 2 = 3 * n" by simp
  ultimately show ?thesis using mesher_faces[OF assms(2)] by simp
qed

lemma length_side_faces: "length (side_faces n []) = 8 * nat n"
proof -
  have "length (concat (map (\<lambda>i. [3, i * 2, i * 2 + 1, (i * 2 + 2) mod (n * 2),
                               3, i * 2 + 1, (i * 2 + 3) mod (n * 2), (i * 2 + 2) mod (n * 2)]) xs))
          = 8 * length xs" for xs :: "int list"
    by (induction xs) simp_all
  then show ?thesis
    by (simp add: side_faces_def fold_side_step length_py_range_unit)
qed

lemma cap_section_eq:
  assumes "0 \<le> n" "line_to_cylinder_mesh self seg n = Inr m"
  shows "cap_section n m = cap_faces n (3 * n - 1) (6 * n - 1) []"
proof -
  have "faces m = cap_faces n (3 * n - 1) (6 * n - 1) (side_faces n [])"
    by (rule mesher_faces_pos[OF assms])
  also have "\<dots> = side_faces n [] @ cap_faces n (3 * n - 1) (6 * n - 1) []"
    by (rule cap_faces_append)
  finally show ?thesis
    by (simp add: cap_section_def length_side_faces)
qed

lemma vertex_count_tube:
  assumes "line_to_cylinder_mesh self seg n = Inr m"
  shows "vertex_count m = 2 * nat n"
  by (simp add: vertex_count_def mesher_length_vertices[OF assms])

lemma face_indices_tube:
  assumes "0 < n" "line_to_cylinder_mesh self seg n = Inr m"
  shows "6 * n - 1 \<in> set (face_indices m)" and "3 * n - 1 \<in> set (face_indices m)"
proof -
  from assms have f: "faces m = cap_faces n (3 * n - 1) (6 * n - 1) (side_faces n [])"
    by (simp add: mesher_faces_pos)
  from assms(1) have "0 \<in> set (py_range 0 n 1)"
    by (simp add: py_range_pos)
  then show "6 * n - 1 \<in> set (face_indices m)" and "3 * n - 1 \<in> set (face_indices m)"
    by (auto simp: face_indices_def f decode_tube_faces)
qed

lemma tube_centers_invalid:
  assumes "0 < n" "line_to_cylinder_mesh self seg n = Inr m"
  shows "\<not> index_valid m (6 * n - 1)" and "\<not> index_valid m (3 * n - 1)"
  using assms(1) by (simp_all add: index_valid_def vertex_count_tube[OF assms(2)])

lemma tube_not_in_range:
  assumes "0 < n" "line_to_cylinder_mesh self seg n = Inr m"
  shows "\<not> faces_in_range m"
  using face_indices_tube(1)[OF assms] tube_centers_invalid(1)[OF assms]
  by (auto simp: faces_in_range_def list_all_iff)

lemma tube_bottom_center_eq:
  assumes "0 < n" "line_to_cylinder_mesh self seg n = Inr m"
  shows "tube_bottom_center n m = 6 * n - 1" and "tube_top_center n m = 3 * n - 1"
proof -
  from assms have "cap_section n m = cap_faces n (3 * n - 1) (6 * n - 1) []"
    by (simp add: cap_section_eq)
  with assms(1) show "tube_bottom_center n m = 6 * n - 1" and "tube_top_center n m = 3 * n - 1"
    by (simp_all add: tube_bottom_center_def tube_top_center_def cap_faces_def fold_cap_step
          cap_step_def py_range_pos)
qed

lemma nth_concat_pairs:
  assumes "k < length xs"
  shows "concat (map (\<lambda>i. [g i, h i]) xs) ! (2 * k) = g (xs ! k)"
    and "concat (map (\<lambda>i. [g i, h i]) xs) ! (2 * k + 1) = h (xs ! k)"
  using assms
proof (induction xs arbitrary: k)
  case Nil
  {
    case 1 then show ?case by simp
  next
    case 2 then show ?case by simp
  }
next
  case (Cons x xs)
  {
    case 1 then show ?case using Cons.IH(1)[of "k - 1"] by (cases k) simp_all
  next
    case 2 then show ?case using Cons.IH(2)[of "k - 1"] by (cases k) simp_all
  }
qed

lemma nth_cap_triangles:
  assumes "0 \<le> i" "i < n"
  shows "concat (map (\<lambda>i. [[bc, i * 2, (i * 2 + 2) mod (n * 2)],
                            [tc, (i * 2 + 1) mod (n * 2), i * 2 + 1]]) (py_range 0 n 1)) ! nat (2 * i)
           = [bc, i * 2, (i * 2 + 2) mod (n * 2)]"
    and "concat (map (\<lambda>i. [[bc, i * 2, (i * 2 + 2) mod (n * 2)],
                            [tc, (i * 2 + 1) mod (n * 2), i * 2 + 1]]) (py_range 0 n 1)) ! nat (2 * i + 1)
           = [tc, (i * 2 + 1) mod (n * 2), i * 2 + 1]"
proof -
  from assms have k: "nat i < length (py_range 0 n 1)" and v: "py_range 0 n 1 ! nat i = i"
    by (simp_all add: py_range_unit)
  have e1: "nat (2 * i) = 2 * nat i" and e2: "nat (2 * i + 1) = 2 * nat i + 1"
    using assms(1) by (simp_all add: nat_mult_distrib nat_add_distrib)
  show "concat (map (\<lambda>i. [[bc, i * 2, (i * 2 + 2) mod (n * 2)],
                            [tc, (i * 2 + 1) mod (n * 2), i * 2 + 1]]) (py_range 0 n 1)) ! nat (2 * i)
           = [bc, i * 2, (i * 2 + 2) mod (n * 2)]"
    unfolding e1 by (subst nth_concat_pairs(1)[OF k]) (simp add: v)
  show "concat (map (\<lambda>i. [[bc, i * 2, (i * 2 + 2) mod (n * 2)],
                            [tc, (i * 2 + 1) mod (n * 2), i * 2 + 1]]) (py_range 0 n 1)) ! nat (2 * i + 1)
           = [tc, (i * 2 + 1) mod (n * 2), i * 2 + 1]"
    unfolding e2 by (subst nth_concat_pairs(2)[OF k]) (simp add: v)
qed

subsection \<open>Two runs of the code\<close>

text \<open>
  The mesher at resolution 1 on the segment from \<open>(0,0,0)\<close> to \<open>(0,0,1)\<close> with a bar
  diameter of 20: radius \<open>0.01\<close>, two vertices, two side triangles, two cap triangles.
\<close>

lemma tube_mesh_example:
  "line_to_cylinder_mesh (group_of (shape_of [unit_z_line] [] 20) 1 AS_VOLUME) unit_z_line 1 =
     Inr (Mesh [1 / 100, 0, 0, 1 / 100, 0, 1]
               [3, 0, 1, 0, 3, 1, 1, 0, 3, 5, 0, 0, 3, 2, 1, 1])"
proof -
  have r: "py_range 0 1 1 = [0]"
    by (simp add: py_range_unit)
  show ?thesis
    by (simp add: line_to_cylinder_mesh_def xyz_def Let_def RebarShape_init_def r
          circle_step_def vertex_step_def side_faces_def side_step_def cap_faces_def
          cap_step_def)
qed

text \<open>Line mode on a shape of one line and no polyline, two instances.\<close>

lemma line_mode_example:
  "generate_representation (group_of (shape_of [unit_z_line] [] 20) 2 AS_LINE) =
     Inr [LineObj unit_z_line, LineObj unit_z_line]"
  by (simp add: generate_representation_def AS_LINE_def AS_VOLUME_def line_mode_outcome
        RebarShape_init_def numeral_2_eq_2)

section \<open>Counts of a tube mesh\<close>

text \<open>
  C1, as stated, fails: the segment from \<open>(0,0,0)\<close> to \<open>(0,0,1)\<close> meshed with
  \<open>num_segments = 4\<close> has 16 faces, not \<open>6 * 4 = 24\<close>. The side loop writes two
  triangles per circle point, not four.
\<close>

theorem tube_mesh_face_count_counterexample:
  "map_sum id mesh_face_count
     (line_to_cylinder_mesh (group_of (shape_of [unit_z_line] [] 20) 2 AS_VOLUME) unit_z_line 4)
     = Inr (Some 16) \<and>
   map_sum id mesh_face_count
     (line_to_cylinder_mesh (group_of (shape_of [unit_z_line] [] 20) 2 AS_VOLUME) unit_z_line 4)
     \<noteq> Inr (Some (6 * 4))"
proof -
  obtain m where m: "line_to_cylinder_mesh (group_of (shape_of [unit_z_line] [] 20) 2 AS_VOLUME)
                       unit_z_line 4 = Inr m"
    using straight_segment_returns[of unit_z_line] by auto
  have "mesh_face_count m = Some 16"
    using face_count_tube[of 4] by (simp add: mesh_face_count_def mesher_faces[OF m])
  with m show ?thesis by simp
qed

text \<open>
  C1 (amended): for \<open>num_segments = N \<ge> 0\<close>, every mesh the tube mesher returns has
  exactly \<open>6N\<close> vertex scalars, that is \<open>2N\<close> points, and a face buffer that is the side
  section followed by the cap section; the side section decodes to \<open>2N\<close> faces, the cap
  section to \<open>2N\<close> faces, the whole buffer to \<open>4N\<close> faces, all of them triangles. The
  mesher returns a mesh for every straight segment (two distinct point objects).
\<close>

theorem tube_mesh_counts:
  assumes "0 \<le> N"
  shows "(\<forall>m. line_to_cylinder_mesh self seg N = Inr m \<longrightarrow>
            length (vertices m) = nat (6 * N) \<and>
            vertex_count m = nat (2 * N) \<and>
            faces m = side_faces N [] @ cap_faces N (3 * N - 1) (6 * N - 1) [] \<and>
            face_count (side_faces N []) = Some (nat (2 * N)) \<and>
            face_count (cap_faces N (3 * N - 1) (6 * N - 1) []) = Some (nat (2 * N)) \<and>
            mesh_face_count m = Some (nat (4 * N)) \<and>
            all_triangles (faces m)) \<and>
         (straight_segment seg \<longrightarrow> (\<exists>m. line_to_cylinder_mesh self seg N = Inr m))"
proof (intro conjI allI impI)
  fix m assume m: "line_to_cylinder_mesh self seg N = Inr m"
  have n6: "nat (6 * N) = 6 * nat N" and n2: "nat (2 * N) = 2 * nat N"
    and n4: "nat (4 * N) = 4 * nat N"
    using assms by (simp_all add: nat_mult_distrib)
  have f: "faces m = cap_faces N (3 * N - 1) (6 * N - 1) (side_faces N [])"
    by (rule mesher_faces_pos[OF assms m])
  show "length (vertices m) = nat (6 * N)"
    by (simp add: mesher_length_vertices[OF m] n6)
  show "vertex_count m = nat (2 * N)"
    by (simp add: vertex_count_tube[OF m] n2)
  show "faces m = side_faces N [] @ cap_faces N (3 * N - 1) (6 * N - 1) []"
    unfolding f by (rule cap_faces_append)
  show "face_count (side_faces N []) = Some (nat (2 * N))"
    by (simp add: face_count_side n2)
  show "face_count (cap_faces N (3 * N - 1) (6 * N - 1) []) = Some (nat (2 * N))"
    by (simp add: face_count_cap n2)
  show "mesh_face_count m = Some (nat (4 * N))"
    by (simp add: mesh_face_count_def f face_count_tube n4)
  show "all_triangles (faces m)"
    unfolding f by (rule all_triangles_tube)
next
  assume "straight_segment seg"
  then show "\<exists>m. line_to_cylinder_mesh self seg N = Inr m"
    by (rule straight_segment_returns)
qed

text \<open>
  The scenario of the specification, \<open>num_segments = 4\<close>: 8 points and 16 triangles.
\<close>

theorem tube_mesh_counts_witness:
  "\<exists>m. line_to_cylinder_mesh (group_of (shape_of [unit_z_line] [] 20) 2 AS_VOLUME) unit_z_line 4
         = Inr m \<and>
       length (vertices m) = 24 \<and> vertex_count m = 8 \<and> mesh_face_count m = Some 16 \<and>
       all_triangles (faces m)"
  using tube_mesh_counts[of 4 "group_of (shape_of [unit_z_line] [] 20) 2 AS_VOLUME" unit_z_line]
  by auto

section \<open>Validity of the face indices\<close>

text \<open>
  C2: at the default resolution 36 the mesh of the segment from \<open>(0,0,0)\<close> to
  \<open>(0,0,1)\<close> has 72 points, valid indices \<open>0..71\<close>, and its face buffer references the
  indices 215 (\<open>len(vertices) - 1\<close> over the flat scalar list) and 107
  (\<open>len(vertices) // 2 - 1\<close>): the faces are not within the range of the vertices. The
  two center vertices are never appended to the vertex list.
\<close>

theorem cap_center_out_of_range:
  "map_sum id vertex_count
     (line_to_cylinder_mesh (group_of (shape_of [unit_z_line] [] 20) 1 AS_VOLUME) unit_z_line 36)
     = Inr 72 \<and>
   map_sum id (references 215)
     (line_to_cylinder_mesh (group_of (shape_of [unit_z_line] [] 20) 1 AS_VOLUME) unit_z_line 36)
     = Inr True \<and>
   map_sum id (references 107)
     (line_to_cylinder_mesh (group_of (shape_of [unit_z_line] [] 20) 1 AS_VOLUME) unit_z_line 36)
     = Inr True \<and>
   map_sum id faces_in_range
     (line_to_cylinder_mesh (group_of (shape_of [unit_z_line] [] 20) 1 AS_VOLUME) unit_z_line 36)
     = Inr False"
proof -
  obtain m where m: "line_to_cylinder_mesh (group_of (shape_of [unit_z_line] [] 20) 1 AS_VOLUME)
                       unit_z_line 36 = Inr m"
    using straight_segment_returns[of unit_z_line] by auto
  have "vertex_count m = 72"
    by (simp add: vertex_count_tube[OF m])
  moreover have "references 215 m" "references 107 m"
    using face_indices_tube[OF _ m] by (simp_all add: references_def)
  moreover have "\<not> faces_in_range m"
    by (rule tube_not_in_range[OF _ m]) simp
  ultimately show ?thesis using m by simp
qed

section \<open>The cap fans\<close>

text \<open>
  The cap section of every tube mesh, as the code writes it: for each \<open>i\<close> a run with
  the bottom center and a run with the top center.
\<close>

lemma cap_section_triangles:
  assumes "0 \<le> N" and "line_to_cylinder_mesh self seg N = Inr m"
  shows "\<exists>cs. decode_faces (cap_section N m) = Some cs \<and>
              length cs = nat (2 * N) \<and>
              (\<forall>i. 0 \<le> i \<and> i < N \<longrightarrow>
                 cs ! nat (2 * i) =
                   [int (length (vertices m)) - 1, i * 2, (i * 2 + 2) mod (N * 2)] \<and>
                 cs ! nat (2 * i + 1) =
                   [int (length (vertices m)) div 2 - 1, (i * 2 + 1) mod (N * 2), i * 2 + 1])"
proof -
  have len: "int (length (vertices m)) = 6 * N"
    using assms(1) by (simp add: mesher_length_vertices[OF assms(2)])
  have c: "int (length (vertices m)) - 1 = 6 * N - 1"
    "int (length (vertices m)) div 2 - 1 = 3 * N - 1"
    unfolding len by simp_all
  have n2: "nat (2 * N) = 2 * nat N"
    using assms(1) by (simp add: nat_mult_distrib)
  let ?cs = "concat (map (\<lambda>i. [[6 * N - 1, i * 2, (i * 2 + 2) mod (N * 2)],
                                  [3 * N - 1, (i * 2 + 1) mod (N * 2), i * 2 + 1]])
                         (py_range 0 N 1))"
  have d: "decode_faces (cap_section N m) = Some ?cs"
    unfolding cap_section_eq[OF assms] by (rule decode_cap_faces)
  have l: "length ?cs = nat (2 * N)"
    unfolding n2 by (simp only: length_concat_pairs length_py_range_unit)
  have "?cs ! nat (2 * i) = [6 * N - 1, i * 2, (i * 2 + 2) mod (N * 2)] \<and>
        ?cs ! nat (2 * i + 1) = [3 * N - 1, (i * 2 + 1) mod (N * 2), i * 2 + 1]"
    if "0 \<le> i \<and> i < N" for i
    using that nth_cap_triangles[of i N "6 * N - 1" "3 * N - 1"] by blast
  with d l show ?thesis unfolding c by blast
qed

text \<open>
  C8: at resolution 36 the bottom cap fans from index 215, which is
  \<open>len(vertices) - 1\<close> over the flat scalar list, where the claim has
  \<open>len(vertices)/3 - 1 = 71\<close> in point-count terms; and the top cap does not fan as the
  bottom cap does: the first bottom-cap triangle joins the center to the consecutive
  ring vertices 0 and 2, the first top-cap triangle is \<open>(107, 1, 1)\<close> and names the
  ring vertex 1 twice.
\<close>

theorem cap_fan_defect:
  "map_sum id (tube_bottom_center 36)
     (line_to_cylinder_mesh (group_of (shape_of [unit_z_line] [] 20) 1 AS_VOLUME) unit_z_line 36)
     = Inr 215 \<and>
   map_sum id spec_bottom_center
     (line_to_cylinder_mesh (group_of (shape_of [unit_z_line] [] 20) 1 AS_VOLUME) unit_z_line 36)
     = Inr 71 \<and>
   map_sum id (cap_triangle 36 0)
     (line_to_cylinder_mesh (group_of (shape_of [unit_z_line] [] 20) 1 AS_VOLUME) unit_z_line 36)
     = Inr [215, 0, 2] \<and>
   map_sum id (cap_triangle 36 1)
     (line_to_cylinder_mesh (group_of (shape_of [unit_z_line] [] 20) 1 AS_VOLUME) unit_z_line 36)
     = Inr [107, 1, 1]"
proof -
  obtain m where m: "line_to_cylinder_mesh (group_of (shape_of [unit_z_line] [] 20) 1 AS_VOLUME)
                       unit_z_line 36 = Inr m"
    using straight_segment_returns[of unit_z_line] by auto
  have len: "length (vertices m) = 216"
    by (simp add: mesher_length_vertices[OF m])
  have "tube_bottom_center 36 m = 215"
    using tube_bottom_center_eq(1)[OF _ m] by simp
  moreover have "spec_bottom_center m = 71"
    by (simp add: spec_bottom_center_def len)
  moreover from cap_section_triangles[OF _ m] obtain cs where
    cs: "decode_faces (cap_section 36 m) = Some cs"
      "\<forall>i. 0 \<le> i \<and> i < 36 \<longrightarrow>
         cs ! nat (2 * i) = [int (length (vertices m)) - 1, i * 2, (i * 2 + 2) mod (36 * 2)] \<and>
         cs ! nat (2 * i + 1) =
           [int (length (vertices m)) div 2 - 1, (i * 2 + 1) mod (36 * 2), i * 2 + 1]"
    by auto
  from cs(2)[rule_format, of 0] have "cs ! 0 = [215, 0, 2]" "cs ! 1 = [107, 1, 1]"
    by (simp_all add: len)
  with cs(1) have "cap_triangle 36 0 m = [215, 0, 2]" "cap_triangle 36 1 m = [107, 1, 1]"
    by (simp_all add: cap_triangle_def)
  ultimately show ?thesis using m by simp
qed

section \<open>A count that is not positive\<close>

text \<open>
  C10: for every shape and every \<open>number \<le> 0\<close>, \<open>generate_representation\<close> returns the
  empty sequence and raises nothing, whatever the mode: \<open>range(number)\<close> is empty.
\<close>

theorem nonpositive_number_empty:
  "number self \<le> 0 \<Longrightarrow> generate_representation self = Inr []"
  by (simp add: generate_representation_def volumetric_nonpos line_nonpos)

text \<open>
  A negative count in volume mode and a zero count in line mode.
\<close>

theorem nonpositive_number_empty_witness:
  "generate_representation (group_of (shape_of [unit_z_line] [Polyline [0, 0, 0, 1, 0, 0]] 20) (- 5) AS_VOLUME)
     = Inr [] \<and>
   generate_representation (group_of (shape_of [unit_z_line] [Polyline [0, 0, 0, 1, 0, 0]] 20) 0 AS_LINE)
     = Inr []"
  using nonpositive_number_empty[of "group_of (shape_of [unit_z_line] [Polyline [0, 0, 0, 1, 0, 0]] 20) (- 5) AS_VOLUME"]
    nonpositive_number_empty[of "group_of (shape_of [unit_z_line] [Polyline [0, 0, 0, 1, 0, 0]] 20) 0 AS_LINE"]
  by simp

section \<open>A negative count\<close>

text \<open>
  C3, as stated, fails: a group constructed with \<open>number = -1\<close> is built without any
  error, in line mode and in volume mode, and its representation is empty.
\<close>

theorem negative_number_counterexample:
  "map_sum id representation
     (RebarGroup_init (shape_of [unit_z_line] [] 20) (- 1) True True None None 0 ''meters'' AS_LINE)
     = Inr [] \<and>
   map_sum id representation
     (RebarGroup_init (shape_of [unit_z_line] [] 20) (- 1) True True None None 0 ''meters'' AS_VOLUME)
     = Inr []"
  by (simp add: RebarGroup_init_def Let_def generate_representation_def volumetric_nonpos
        line_nonpos rebar_group.extend_def)

text \<open>
  C3 (amended): for every negative \<open>number\<close> the constructor succeeds in every mode;
  the group keeps the negative number as given and its representation is the empty
  sequence.
\<close>

theorem negative_number_constructs:
  assumes "n < 0"
  shows "\<exists>g. RebarGroup_init sh n first_bar last_bar hook1 hook2 vol un mode = Inr g \<and>
             number g = n \<and> representation g = []"
  using assms
  by (simp add: RebarGroup_init_def Let_def generate_representation_def volumetric_nonpos
        line_nonpos rebar_group.extend_def)

text \<open>
  \<open>number = -3\<close> in volume mode.
\<close>

theorem negative_number_constructs_witness:
  "\<exists>g. RebarGroup_init (shape_of [unit_z_line] [] 20) (- 3) True True None None 0 ''meters'' AS_VOLUME
         = Inr g \<and> number g = - 3 \<and> representation g = []"
  using negative_number_constructs[of "- 3" "shape_of [unit_z_line] [] 20" True True None None 0
      "''meters''" AS_VOLUME]
  by simp

section \<open>A zero-length segment\<close>

text \<open>
  C4, as stated, fails: a segment from \<open>(1,2,3)\<close> to \<open>(1,2,3)\<close> makes the mesher, and
  volume-mode generation of a group holding it, raise \<open>ZeroDivisionError\<close>, which is not
  \<open>DegenerateGeometry\<close>.
\<close>

theorem zero_length_counterexample:
  "line_to_cylinder_mesh (group_of (shape_of [Line (Point 1 2 3) (Point 1 2 3)] [] 20) 1 AS_VOLUME)
     (Line (Point 1 2 3) (Point 1 2 3)) 36 = Inl ZeroDivisionError \<and>
   generate_representation (group_of (shape_of [Line (Point 1 2 3) (Point 1 2 3)] [] 20) 1 AS_VOLUME)
     = Inl ZeroDivisionError \<and>
   generate_representation (group_of (shape_of [Line (Point 1 2 3) (Point 1 2 3)] [] 20) 1 AS_VOLUME)
     \<noteq> Inl DegenerateGeometry"
proof -
  have "generate_volumetric_representation
          (group_of (shape_of [Line (Point 1 2 3) (Point 1 2 3)] [] 20) 1 AS_VOLUME)
        = Inl ZeroDivisionError"
    by (rule volumetric_raises_zero_division[where pre = "[]" and post = "[]"
          and seg = "Line (Point 1 2 3) (Point 1 2 3)"])
       (simp_all add: RebarShape_init_def)
  then show ?thesis
    by (simp add: generate_representation_def zero_length_segment_raises)
qed

text \<open>
  C4 (amended): for every segment whose two ends are the same point the tube mesher
  raises \<open>ZeroDivisionError\<close> (the division by the length is not guarded); volume-mode
  generation of a group with a positive number raises it too when that segment is the
  first of the shape's lines that is not straight.
\<close>

theorem zero_length_segment_zero_division:
  assumes "zero_length_segment seg"
  shows "line_to_cylinder_mesh self seg N = Inl ZeroDivisionError \<and>
         (representation_mode self = AS_VOLUME \<and> 0 < number self \<and>
          lines (shape self) = pre @ seg # post \<and> list_all straight_segment pre \<longrightarrow>
            generate_representation self = Inl ZeroDivisionError)"
  using assms
  by (auto simp: zero_length_segment_raises generate_representation_def
        volumetric_raises_zero_division)

text \<open>
  A shape with a straight line followed by a zero-length one, \<open>number = 2\<close>.
\<close>

theorem zero_length_segment_zero_division_witness:
  "line_to_cylinder_mesh
     (group_of (shape_of [unit_z_line, Line (Point 1 2 3) (Point 1 2 3)] [] 20) 2 AS_VOLUME)
     (Line (Point 1 2 3) (Point 1 2 3)) 36 = Inl ZeroDivisionError \<and>
   generate_representation
     (group_of (shape_of [unit_z_line, Line (Point 1 2 3) (Point 1 2 3)] [] 20) 2 AS_VOLUME)
     = Inl ZeroDivisionError"
  using zero_length_segment_zero_division[of "Line (Point 1 2 3) (Point 1 2 3)"
      "group_of (shape_of [unit_z_line, Line (Point 1 2 3) (Point 1 2 3)] [] 20) 2 AS_VOLUME"
      36 "[unit_z_line]" "[]"]
  by (simp add: RebarShape_init_def)

section \<open>Segments of a polyline\<close>

text \<open>
  C5: a polyline of two points, \<open>[0,0,0, 1,0,0]\<close>, should yield one segment. Both
  generators build it as a \<open>Line\<close> of two list slices, which the constructor refuses:
  generation raises \<open>SpeckleException\<close> in line mode and in volume mode and yields no
  segment.
\<close>

theorem polyline_segment_raises:
  "generate_representation (group_of (shape_of [] [Polyline [0, 0, 0, 1, 0, 0]] 20) 1 AS_LINE)
     = Inl SpeckleException \<and>
   generate_representation (group_of (shape_of [] [Polyline [0, 0, 0, 1, 0, 0]] 20) 1 AS_VOLUME)
     = Inl SpeckleException"
proof -
  have "generate_volumetric_representation
          (group_of (shape_of [] [Polyline [0, 0, 0, 1, 0, 0]] 20) 1 AS_VOLUME)
        = Inl SpeckleException"
    by (rule volumetric_polyline_raises) (simp_all add: RebarShape_init_def)
  then show ?thesis
    by (simp add: generate_representation_def AS_LINE_def AS_VOLUME_def line_mode_outcome
          RebarShape_init_def)
qed

section \<open>Volume mode against line mode\<close>

text \<open>
  C6: for the shape of the specification's scenarios, one line and the polyline
  \<open>[0,0,0, 1,0,0, 1,1,0]\<close>, with \<open>number = 2\<close>, the claim has as many meshes as lines
  (three per instance). Neither generator gets past the first polyline segment: both
  raise \<open>SpeckleException\<close>, so there is neither a list of lines nor a list of meshes.
\<close>

theorem polyline_blocks_both_modes:
  "generate_representation
     (group_of (shape_of [unit_z_line] [Polyline [0, 0, 0, 1, 0, 0, 1, 1, 0]] 20) 2 AS_VOLUME)
     = Inl SpeckleException \<and>
   generate_representation
     (group_of (shape_of [unit_z_line] [Polyline [0, 0, 0, 1, 0, 0, 1, 1, 0]] 20) 2 AS_LINE)
     = Inl SpeckleException"
proof -
  have "generate_volumetric_representation
          (group_of (shape_of [unit_z_line] [Polyline [0, 0, 0, 1, 0, 0, 1, 1, 0]] 20) 2 AS_VOLUME)
        = Inl SpeckleException"
    by (rule volumetric_polyline_raises) (simp_all add: RebarShape_init_def)
  then show ?thesis
    by (simp add: generate_representation_def AS_LINE_def AS_VOLUME_def line_mode_outcome
          RebarShape_init_def)
qed

section \<open>Mode dispatch\<close>

text \<open>
  C7: with the mode \<open>bogus\<close> and a shape holding a polyline of two points,
  \<open>generate_representation\<close> raises \<open>SpeckleException\<close>, where the claim has it not
  raise. The outcome is the one of \<open>AsLine\<close>, as \<open>other_mode_is_line_mode\<close> shows for
  every group.
\<close>

theorem unrecognized_mode_raises:
  "generate_representation
     (group_of (shape_of [unit_z_line] [Polyline [0, 0, 0, 1, 0, 0]] 20) 2 ''bogus'')
     = Inl SpeckleException \<and>
   generate_representation
     (group_of (shape_of [unit_z_line] [Polyline [0, 0, 0, 1, 0, 0]] 20) 2 AS_LINE)
     = Inl SpeckleException"
  by (simp add: generate_representation_def AS_LINE_def AS_VOLUME_def line_mode_outcome
        RebarShape_init_def)

section \<open>A polyline whose length is not a multiple of three\<close>

text \<open>
  C9, as stated, fails: a group whose shape has the polyline \<open>[0,0]\<close> (two scalars) is
  constructed without any error, in line mode and in volume mode; the polyline gives no
  segment.
\<close>

theorem short_polyline_counterexample:
  "map_sum id representation
     (RebarGroup_init (shape_of [unit_z_line] [Polyline [0, 0]] 20) 1 True True None None 0
        ''meters'' AS_LINE)
     = Inr [LineObj unit_z_line] \<and>
   map_sum id representation
     (RebarGroup_init (shape_of [] [Polyline [0, 0]] 20) 1 True True None None 0
        ''meters'' AS_VOLUME)
     = Inr []"
proof -
  have r: "py_range 0 1 1 = [0]"
    by (simp add: py_range_unit)
  have "generate_volumetric_representation
          (group_of (shape_of [] [Polyline [0, 0]] 20) 1 AS_VOLUME) = Inr []"
    by (simp add: generate_volumetric_representation_def mesh_instance_def
          mesh_polyline_loop_eq RebarShape_init_def r)
  then show ?thesis
    by (simp add: RebarGroup_init_def Let_def generate_representation_def AS_LINE_def
          AS_VOLUME_def line_mode_outcome RebarShape_init_def rebar_group.extend_def)
qed

text \<open>
  C9 (amended): the length of a polyline is not validated. For every shape whose
  polylines hold at most three scalars each, a multiple of three or not, the constructor
  succeeds: in every mode other than \<open>AsVolume\<close> the representation is the lines of the
  shape, once per instance; in \<open>AsVolume\<close> mode, when every line is straight, it is one
  mesh per line and instance. These polylines give no segment.
\<close>

theorem short_polyline_not_rejected:
  assumes "list_all no_segment (polylines sh)"
  shows "(mode \<noteq> AS_VOLUME \<longrightarrow>
            (\<exists>g. RebarGroup_init sh n first_bar last_bar hook1 hook2 vol un mode = Inr g \<and>
                 representation g = map LineObj (concat (replicate (nat n) (lines sh))))) \<and>
         (mode = AS_VOLUME \<and> list_all straight_segment (lines sh) \<longrightarrow>
            (\<exists>g. RebarGroup_init sh n first_bar last_bar hook1 hook2 vol un mode = Inr g \<and>
                 length (representation g) = nat n * length (lines sh)))"
proof (intro conjI impI)
  assume "mode \<noteq> AS_VOLUME"
  with assms show "\<exists>g. RebarGroup_init sh n first_bar last_bar hook1 hook2 vol un mode = Inr g \<and>
                 representation g = map LineObj (concat (replicate (nat n) (lines sh)))"
    by (simp add: RebarGroup_init_def Let_def generate_representation_def line_mode_outcome
          rebar_group.extend_def)
next
  assume h: "mode = AS_VOLUME \<and> list_all straight_segment (lines sh)"
  let ?self = "\<lparr>shape = sh, number = n, has_first_bar = first_bar, has_last_bar = last_bar,
                  start_hook = hook1, end_hook = hook2, volume = vol, units = un,
                  representation_mode = mode\<rparr>"
  from h assms obtain ms where ms: "generate_volumetric_representation ?self = Inr ms"
    using volumetric_returns[of ?self] by auto
  from volumetric_length[OF ms] assms have "length ms = nat n * length (lines sh)"
    by (auto simp: line_mode_outcome length_concat_replicate)
  with ms h show "\<exists>g. RebarGroup_init sh n first_bar last_bar hook1 hook2 vol un mode = Inr g \<and>
                 length (representation g) = nat n * length (lines sh)"
    by (simp add: RebarGroup_init_def Let_def generate_representation_def
          rebar_group.extend_def)
qed

text \<open>
  Polylines of two scalars and of one, with one line and \<open>number = 2\<close>: two lines in
  line mode, two meshes in volume mode.
\<close>

theorem short_polyline_not_rejected_witness:
  "(\<exists>g. RebarGroup_init (shape_of [unit_z_line] [Polyline [0, 0], Polyline [1]] 20) 2
          True True None None 0 ''meters'' AS_LINE = Inr g \<and>
        representation g = [LineObj unit_z_line, LineObj unit_z_line]) \<and>
   (\<exists>g. RebarGroup_init (shape_of [unit_z_line] [Polyline [0, 0], Polyline [1]] 20) 2
          True True None None 0 ''meters'' AS_VOLUME = Inr g \<and>
        length (representation g) = 2)"
proof -
  have h: "list_all no_segment
             (polylines (shape_of [unit_z_line] [Polyline [0, 0], Polyline [1]] 20))"
    by (simp add: RebarShape_init_def)
  have l: "AS_LINE \<noteq> AS_VOLUME"
    by (simp add: AS_LINE_def AS_VOLUME_def)
  have s: "list_all straight_segment
             (lines (shape_of [unit_z_line] [Polyline [0, 0], Polyline [1]] 20))"
    by (simp add: RebarShape_init_def)
  have c: "map LineObj (concat (replicate (nat 2)
             (lines (shape_of [unit_z_line] [Polyline [0, 0], Polyline [1]] 20))))
           = [LineObj unit_z_line, LineObj unit_z_line]"
    by (simp add: RebarShape_init_def numeral_2_eq_2)
  have n: "nat 2 * length (lines (shape_of [unit_z_line] [Polyline [0, 0], Polyline [1]] 20)) = 2"
    by (simp add: RebarShape_init_def)
  from short_polyline_not_rejected[OF h, of AS_LINE 2 True True None None 0 "''meters''"] l
  have a: "\<exists>g. RebarGroup_init (shape_of [unit_z_line] [Polyline [0, 0], Polyline [1]] 20) 2
          True True None None 0 ''meters'' AS_LINE = Inr g \<and>
        representation g = [LineObj unit_z_line, LineObj unit_z_line]"
    unfolding c by blast
  from short_polyline_not_rejected[OF h, of AS_VOLUME 2 True True None None 0 "''meters''"] s
  have b: "\<exists>g. RebarGroup_init (shape_of [unit_z_line] [Polyline [0, 0], Polyline [1]] 20) 2
          True True None None 0 ''meters'' AS_VOLUME = Inr g \<and>
        length (representation g) = 2"
    unfolding n by blast
  from a b show ?thesis by blast
qed

end
